theory Spec2Isabelle
  imports Main "HOL-Library.Multiset"
begin

section \<open>The subscription dashboard front end (js/app.js)\<close>

text \<open>
  A shallow embedding of the decision logic of \<^verbatim>\<open>js/app.js\<close>: currency formatting,
  best-model selection, the filter and sort pipeline, hash routing and the snapshot load.

  Conventions of the embedding.
  \<^item> A JSON field that may be absent, \<^verbatim>\<open>null\<close> or \<^verbatim>\<open>undefined\<close> is an \<open>option\<close>;
    \<open>None\<close> stands for all three. Numeric fields hold integers (currency amounts and
    millisecond timestamps), modelled by \<open>int\<close>; the code computes in doubles, which are
    exact on integers of absolute value up to \<open>2^53 - 1\<close>.
  \<^item> What the runtime decides is a parameter: the rendering of \<^verbatim>\<open>toLocaleString()\<close> in the
    default locale, the date parser, and the number of arguments a call accepts.
  \<^item> A JavaScript string is a \<open>string\<close> holding its UTF-8 bytes, so a Hangul syllable is
    three \<open>char\<close>s. Lengths are taken of ASCII literals only, where bytes and UTF-16
    code units coincide.
  \<^item> Writes to the page are values of \<open>dom_write\<close>; a function that touches the page
    returns the list of its writes in program order. The HTML templates themselves are
    not modelled: a write records which template was used and with which data.
\<close>

subsection \<open>Data model\<close>

text \<open>Only the fields read by the functions below are kept.\<close>

record model =
  housing_type :: "string option"
  profit :: "int option"

record sched =
  receipt_start :: "string option"
  announcement_date :: "string option"

record listing =
  item_id :: string
  status :: "string option"
  region :: "string option"
  max_profit :: "int option"
  schedule :: "sched option"
  models :: "model list option"

text \<open>\<^verbatim>\<open>let activeFilters = { status: 'upcoming', region: 'all' }\<close>\<close>

record filters =
  filter_status :: string
  filter_region :: string

text \<open>The module variables, and \<^verbatim>\<open>window.location.hash\<close>.\<close>

record app =
  allItems :: "listing list"
  activeFilters :: filters
  activeSort :: string
  location_hash :: string

definition initial :: "string \<Rightarrow> app" where
  "initial h =
     \<lparr>allItems = [],
      activeFilters = \<lparr>filter_status = ''upcoming'', filter_region = ''all''\<rparr>,
      activeSort = ''date-asc'',
      location_hash = h\<rparr>"

subsection \<open>String constants\<close>

text \<open>The Hangul literals of the source, as UTF-8: U+C5B5, U+B9CC, U+C6D0.\<close>

definition EOK :: string where
  "EOK = [CHR 0xEC, CHR 0x96, CHR 0xB5]"

definition MAN :: string where
  "MAN = [CHR 0xEB, CHR 0xA7, CHR 0x8C]"

definition WON :: string where
  "WON = [CHR 0xEC, CHR 0x9B, CHR 0x90]"

text \<open>The status literals U+C811 U+C218 U+C608 U+C815 and U+C811 U+C218 U+C911.\<close>

definition STATUS_UPCOMING :: string where
  "STATUS_UPCOMING =
     [CHR 0xEC, CHR 0xA0, CHR 0x91, CHR 0xEC, CHR 0x88, CHR 0x98,
      CHR 0xEC, CHR 0x98, CHR 0x88, CHR 0xEC, CHR 0xA0, CHR 0x95]"

definition STATUS_OPEN :: string where
  "STATUS_OPEN =
     [CHR 0xEC, CHR 0xA0, CHR 0x91, CHR 0xEC, CHR 0x88, CHR 0x98,
      CHR 0xEC, CHR 0xA4, CHR 0x91]"

text \<open>The prefix of the \<^verbatim>\<open>updatedAt\<close> text: U+CD5C U+C885, a space, U+C5C5 U+B370 U+C774 U+D2B8, a colon, a space.\<close>

definition UPDATED_PREFIX :: string where
  "UPDATED_PREFIX =
     [CHR 0xEC, CHR 0xB5, CHR 0x9C, CHR 0xEC, CHR 0xA2, CHR 0x85, CHR 0x20,
      CHR 0xEC, CHR 0x97, CHR 0x85, CHR 0xEB, CHR 0x8D, CHR 0xB0,
      CHR 0xEC, CHR 0x9D, CHR 0xB4, CHR 0xED, CHR 0x8A, CHR 0xB8, CHR 0x3A, CHR 0x20]"

subsection \<open>JavaScript primitives\<close>

text \<open>Truthiness of a nullable number: \<^verbatim>\<open>null\<close>, \<^verbatim>\<open>undefined\<close> and \<^verbatim>\<open>0\<close> are falsy.\<close>

fun falsy :: "int option \<Rightarrow> bool" where
  "falsy None = True"
| "falsy (Some n) = (n = 0)"

text \<open>\<^verbatim>\<open>x || 0\<close> on a nullable number.\<close>

definition or0 :: "int option \<Rightarrow> int" where
  "or0 x = (if falsy x then 0 else the x)"

text \<open>The decimal digit of \<open>d < 10\<close>; every call below passes such a \<open>d\<close>.\<close>

definition digit :: "nat \<Rightarrow> char" where
  "digit d = ''0123456789'' ! d"

text \<open>Number-to-string conversion of a non-negative integer (string concatenation).\<close>

fun String_nat :: "nat \<Rightarrow> string" where
  "String_nat n =
     (if n < 10 then [digit n] else String_nat (n div 10) @ [digit (n mod 10)])"

text \<open>
  \<^verbatim>\<open>Number.prototype.toLocaleString()\<close> is called without a locale, so its result follows
  the default locale of the runtime: the functions below take it as the parameter
  \<open>toLocaleString\<close>, on non-negative integers. Two runtimes serve for examples. Both
  write Latin digits in groups of three; \<^verbatim>\<open>ko-KR\<close> (as \<^verbatim>\<open>en-US\<close>) separates the groups by
  commas, \<^verbatim>\<open>de-DE\<close> by full stops.
\<close>

fun group3 :: "char \<Rightarrow> nat \<Rightarrow> string" where
  "group3 sep n =
     (if n < 1000 then String_nat n
      else group3 sep (n div 1000) @ [sep] @
        [digit (n mod 1000 div 100), digit (n mod 100 div 10), digit (n mod 10)])"

definition ko_KR :: "nat \<Rightarrow> string" where
  "ko_KR = group3 (CHR '','')"

definition de_DE :: "nat \<Rightarrow> string" where
  "de_DE = group3 (CHR ''.'')"

text \<open>\<^verbatim>\<open>s.startsWith(p)\<close>\<close>

definition startsWith :: "string \<Rightarrow> string \<Rightarrow> bool" where
  "startsWith s p = (take (length p) s = p)"

text \<open>\<^verbatim>\<open>s.replace(pat, rep)\<close> with a string pattern: the first occurrence only.\<close>

fun replace :: "string \<Rightarrow> string \<Rightarrow> string \<Rightarrow> string" where
  "replace pat rep [] = (if pat = [] then rep else [])"
| "replace pat rep (c # cs) =
     (if startsWith (c # cs) pat then rep @ drop (length pat) (c # cs)
      else c # replace pat rep cs)"

text \<open>
  \<^verbatim>\<open>Array.prototype.sort(cmp)\<close>. ECMAScript (since the 2019 edition) requires the sort to
  be stable, and for a consistent comparator that fixes the result; it is computed here
  by insertion. An element goes before the first element it does not compare greater
  than, so elements that compare equal keep their order.
\<close>

fun insert_cmp :: "('a \<Rightarrow> 'a \<Rightarrow> int) \<Rightarrow> 'a \<Rightarrow> 'a list \<Rightarrow> 'a list" where
  "insert_cmp cmp x [] = [x]"
| "insert_cmp cmp x (y # ys) =
     (if cmp x y \<le> 0 then x # y # ys else y # insert_cmp cmp x ys)"

definition Array_sort :: "('a \<Rightarrow> 'a \<Rightarrow> int) \<Rightarrow> 'a list \<Rightarrow> 'a list" where
  "Array_sort cmp xs = foldr (insert_cmp cmp) xs []"

subsection \<open>Utilities\<close>

text \<open>
  \<^verbatim>\<open>
  function formatMoney(amount) {
    if (!amount && amount !== 0) return '-';
    const absAmount = Math.abs(amount);
    const sign = amount < 0 ? '-' : '';
    if (absAmount >= 100000000) {
      const eok = Math.floor(absAmount / 100000000);
      const man = Math.floor((absAmount % 100000000) / 10000);
      return sign + eok + EOK + (man > 0 ? ' ' + man.toLocaleString() + MAN : '');
    }
    if (absAmount >= 10000) {
      return sign + Math.floor(absAmount / 10000).toLocaleString() + MAN;
    }
    return sign + absAmount.toLocaleString() + WON;
  }
  \<close>
  Past the guard the amount is a number, so \<open>the\<close> is applied to a \<open>Some\<close>. The
  concatenation \<^verbatim>\<open>sign + eok + ...\<close> converts \<^verbatim>\<open>eok\<close> by the plain number-to-string
  conversion, which is in decimal digits for the integers that doubles hold exactly.
\<close>

definition formatMoney :: "(nat \<Rightarrow> string) \<Rightarrow> int option \<Rightarrow> string" where
  "formatMoney toLocaleString amount =
     (if falsy amount \<and> amount \<noteq> Some 0 then ''-''
      else
        let absAmount = nat \<bar>the amount\<bar>;
            sign = (if the amount < 0 then ''-'' else '''')
        in
          if absAmount \<ge> 100000000 then
            let eok = absAmount div 100000000;
                man = (absAmount mod 100000000) div 10000
            in sign @ String_nat eok @ EOK @
                 (if man > 0 then '' '' @ toLocaleString man @ MAN else '''')
          else if absAmount \<ge> 10000 then
            sign @ toLocaleString (absAmount div 10000) @ MAN
          else sign @ toLocaleString absAmount @ WON)"

text \<open>
  \<^verbatim>\<open>
  function dateVal(dateStr) {
    if (!dateStr) return 0;
    return new Date(dateStr).getTime() || 0;
  }
  \<close>
  The date parser belongs to the browser; it is the parameter \<open>getTime\<close>, which gives the
  timestamp in milliseconds, or \<open>None\<close> for an invalid date (\<^verbatim>\<open>NaN\<close>).
\<close>

definition dateVal :: "(string \<Rightarrow> int option) \<Rightarrow> string option \<Rightarrow> int" where
  "dateVal getTime dateStr =
     (case dateStr of
        None \<Rightarrow> 0
      | Some s \<Rightarrow> if s = '''' then 0 else or0 (getTime s))"

text \<open>
  \<^verbatim>\<open>
  function bestDate(item) {
    const s = item.schedule || {};
    return dateVal(s.receipt_start) || dateVal(s.announcement_date) || 0;
  }
  \<close>
\<close>

definition bestDate :: "(string \<Rightarrow> int option) \<Rightarrow> listing \<Rightarrow> int" where
  "bestDate getTime item =
     (let s = (case schedule item of
                 None \<Rightarrow> \<lparr>receipt_start = None, announcement_date = None\<rparr>
               | Some s \<Rightarrow> s)
      in if dateVal getTime (receipt_start s) \<noteq> 0 then dateVal getTime (receipt_start s)
         else if dateVal getTime (announcement_date s) \<noteq> 0
           then dateVal getTime (announcement_date s)
         else 0)"

text \<open>
  \<^verbatim>\<open>
  function getBestModel(models) {
    if (!models || models.length === 0) return null;
    return models.reduce((best, m) =>
      (m.profit || 0) > (best.profit || 0) ? m : best
    , models[0]);
  }
  \<close>
\<close>

definition getBestModel :: "model list option \<Rightarrow> model option" where
  "getBestModel ms =
     (case ms of
        None \<Rightarrow> None
      | Some xs \<Rightarrow>
          if length xs = 0 then None
          else Some (foldl (\<lambda>best m. if or0 (profit m) > or0 (profit best) then m else best)
                       (xs ! 0) xs))"

subsection \<open>Filtering and sorting\<close>

text \<open>
  The callback of \<^verbatim>\<open>items.filter\<close> in \<^verbatim>\<open>applyFilters\<close>:
  \<^verbatim>\<open>
  if (activeFilters.status === 'upcoming') {
    if (item.status !== UPCOMING && item.status !== OPEN) return false;
  } else if (activeFilters.status !== 'all' && item.status !== activeFilters.status) {
    return false;
  }
  if (activeFilters.region !== 'all' && item.region !== activeFilters.region) return false;
  return true;
  \<close>
\<close>

definition keep :: "filters \<Rightarrow> listing \<Rightarrow> bool" where
  "keep af item =
     (if filter_status af = ''upcoming'' \<and>
         status item \<noteq> Some STATUS_UPCOMING \<and> status item \<noteq> Some STATUS_OPEN
        then False
      else if filter_status af \<noteq> ''upcoming'' \<and> filter_status af \<noteq> ''all'' \<and>
         status item \<noteq> Some (filter_status af)
        then False
      else if filter_region af \<noteq> ''all'' \<and> region item \<noteq> Some (filter_region af)
        then False
      else True)"

definition applyFilters :: "filters \<Rightarrow> listing list \<Rightarrow> listing list" where
  "applyFilters af items = filter (keep af) items"

text \<open>
  The \<^verbatim>\<open>switch (activeSort)\<close> of \<^verbatim>\<open>applySort\<close>: the comparator of each case, and
  \<open>None\<close> for a key that matches no case.
\<close>

definition comparator ::
  "(string \<Rightarrow> int option) \<Rightarrow> string \<Rightarrow> (listing \<Rightarrow> listing \<Rightarrow> int) option" where
  "comparator getTime key =
     (if key = ''profit-desc'' then Some (\<lambda>a b. or0 (max_profit b) - or0 (max_profit a))
      else if key = ''profit-asc'' then Some (\<lambda>a b. or0 (max_profit a) - or0 (max_profit b))
      else if key = ''date-asc'' then Some (\<lambda>a b. bestDate getTime a - bestDate getTime b)
      else if key = ''date-desc'' then Some (\<lambda>a b. bestDate getTime b - bestDate getTime a)
      else None)"

text \<open>\<^verbatim>\<open>applySort\<close>, as a function of the array's contents.\<close>

definition applySort :: "(string \<Rightarrow> int option) \<Rightarrow> string \<Rightarrow> listing list \<Rightarrow> listing list" where
  "applySort getTime key items =
     (let sorted = items
      in case comparator getTime key of
           None \<Rightarrow> sorted
         | Some cmp \<Rightarrow> Array_sort cmp sorted)"

subsection \<open>Filtering and sorting on a store of arrays\<close>

text \<open>
  Arrays are objects: \<^verbatim>\<open>sort\<close> reorders its receiver in place, \<^verbatim>\<open>filter\<close> and the spread
  \<^verbatim>\<open>[...items]\<close> allocate. The store is the list of all arrays allocated so far, an
  array's reference is its index, and a new array is appended. Every function returns
  the reference of its result and the store it leaves.
\<close>

type_synonym ref = nat
type_synonym store = "listing list list"

definition Array_filter :: "(listing \<Rightarrow> bool) \<Rightarrow> ref \<Rightarrow> store \<Rightarrow> ref \<times> store" where
  "Array_filter p a h = (length h, h @ [filter p (h ! a)])"

definition Array_spread :: "ref \<Rightarrow> store \<Rightarrow> ref \<times> store" where
  "Array_spread a h = (length h, h @ [h ! a])"

definition Array_sort_inplace :: "(listing \<Rightarrow> listing \<Rightarrow> int) \<Rightarrow> ref \<Rightarrow> store \<Rightarrow> store" where
  "Array_sort_inplace cmp a h = h[a := Array_sort cmp (h ! a)]"

definition applyFilters_ref :: "filters \<Rightarrow> ref \<Rightarrow> store \<Rightarrow> ref \<times> store" where
  "applyFilters_ref af items h = Array_filter (keep af) items h"

text \<open>
  \<^verbatim>\<open>
  function applySort(items) {
    const sorted = [...items];
    switch (activeSort) { case ...: sorted.sort(cmp); break; ... }
    return sorted;
  }
  \<close>
\<close>

definition applySort_ref ::
  "(string \<Rightarrow> int option) \<Rightarrow> string \<Rightarrow> ref \<Rightarrow> store \<Rightarrow> ref \<times> store" where
  "applySort_ref getTime key items h =
     (let (sorted, h1) = Array_spread items h
      in case comparator getTime key of
           None \<Rightarrow> (sorted, h1)
         | Some cmp \<Rightarrow> (sorted, Array_sort_inplace cmp sorted h1))"

text \<open>
  The two calls at the head of \<^verbatim>\<open>renderCards\<close>:
  \<^verbatim>\<open>let filtered = applyFilters(allItems); filtered = applySort(filtered);\<close>
\<close>

definition pipeline_ref ::
  "(string \<Rightarrow> int option) \<Rightarrow> filters \<Rightarrow> string \<Rightarrow> ref \<Rightarrow> store \<Rightarrow> ref \<times> store" where
  "pipeline_ref getTime af key items h =
     (let (filtered, h1) = applyFilters_ref af items h
      in applySort_ref getTime key filtered h1)"

subsection \<open>Rendering, routing and loading\<close>

text \<open>What is assigned to \<^verbatim>\<open>cardList.innerHTML\<close>: one of the two empty-state blocks, or the cards.\<close>

datatype card_html = LoadFailedHTML | NoMatchHTML | Cards "listing list"

text \<open>
  What the \<^verbatim>\<open>try\<close> block of \<^verbatim>\<open>loadData\<close> can throw: the error of a non-success status,
  the rejection of \<^verbatim>\<open>fetch\<close>, the rejection of \<^verbatim>\<open>resp.json()\<close>, the \<^verbatim>\<open>TypeError\<close> of
  reading \<^verbatim>\<open>data.items\<close> when the document is \<^verbatim>\<open>null\<close>, and the \<^verbatim>\<open>RangeError\<close> of a
  call with more arguments than the runtime accepts.
\<close>

datatype js_error = HttpError nat | FetchRejected | JsonRejected | NullData | RangeError

datatype dom_write =
    TextContent string string
  | CardListHTML card_html
  | PanelHTML listing
  | OverlayActive bool
  | BodyOverflow string
  | ConsoleError js_error

record snapshot =
  items :: "listing list option"
  updated_at :: "string option"

datatype json_result = JsonFails | JsonNull | JsonObject snapshot

text \<open>The outcome of \<^verbatim>\<open>fetch\<close>: a rejection, or a response with \<^verbatim>\<open>ok\<close>, \<^verbatim>\<open>status\<close> and its body.\<close>

datatype fetch_outcome = FetchFails | Response bool nat json_result

text \<open>
  \<^verbatim>\<open>renderCards\<close>: the visible sequence is \<^verbatim>\<open>applySort(applyFilters(allItems))\<close>; an empty
  one shows the no-match block.
\<close>

definition renderCards :: "(string \<Rightarrow> int option) \<Rightarrow> app \<Rightarrow> dom_write list" where
  "renderCards getTime st =
     (let filtered = applyFilters (activeFilters st) (allItems st);
          filtered = applySort getTime (activeSort st) filtered
      in if length filtered = 0 then [CardListHTML NoMatchHTML]
         else [CardListHTML (Cards filtered)])"

text \<open>
  A statement that throws keeps the effects that came before it: a function that can
  throw returns its writes up to that point and the error, if any.

  \<^verbatim>\<open>
  function updateSummary(data) {
    const items = data.items || [];
    document.getElementById('totalCount').textContent = items.length;
    document.getElementById('upcomingCount').textContent =
      items.filter(i => i.status === UPCOMING).length;
    document.getElementById('openCount').textContent =
      items.filter(i => i.status === OPEN).length;
    const maxP = items.length > 0
      ? Math.max(...items.map(i => i.max_profit || 0))
      : 0;
    document.getElementById('maxProfit').textContent =
      maxP > 0 ? formatMoney(maxP) : '-';
  }
  \<close>
  The spread call \<^verbatim>\<open>Math.max(...xs)\<close> passes one argument for each element; beyond the
  runtime's limit \<open>maxArguments\<close> it throws a \<^verbatim>\<open>RangeError\<close>, after the first three
  counters are written.
\<close>

definition updateSummary ::
  "(nat \<Rightarrow> string) \<Rightarrow> nat \<Rightarrow> snapshot \<Rightarrow> dom_write list \<times> js_error option" where
  "updateSummary toLocaleString maxArguments data =
     (let its = (case items data of None \<Rightarrow> [] | Some xs \<Rightarrow> xs);
          counters =
            [TextContent ''totalCount'' (String_nat (length its)),
             TextContent ''upcomingCount''
               (String_nat (length (filter (\<lambda>i. status i = Some STATUS_UPCOMING) its))),
             TextContent ''openCount''
               (String_nat (length (filter (\<lambda>i. status i = Some STATUS_OPEN) its)))]
      in if length its > 0 \<and> length its > maxArguments then (counters, Some RangeError)
         else
           let maxP = (if length its > 0 then Max (set (map (\<lambda>i. or0 (max_profit i)) its))
                       else 0)
           in (counters @
                 [TextContent ''maxProfit''
                    (if maxP > 0 then formatMoney toLocaleString (Some maxP) else ''-'')],
               None))"

text \<open>
  The \<^verbatim>\<open>try\<close> block of \<^verbatim>\<open>loadData\<close>: the state and the writes it leaves, and the error
  when it throws.
  \<^verbatim>\<open>
  const resp = await fetch('data/subscriptions.json');
  if (!resp.ok) throw new Error(`HTTP ${resp.status}`);
  const data = await resp.json();
  allItems = data.items || [];
  document.getElementById('updatedAt').textContent = PREFIX + (data.updated_at || '-');
  updateSummary(data);
  renderCards();
  \<close>
  The snapshot's items are listing objects and the page has the elements the script looks
  up. Then the throws before the assignment to \<^verbatim>\<open>allItems\<close> leave no effect, and after it
  only \<^verbatim>\<open>updateSummary\<close> can throw, with \<^verbatim>\<open>allItems\<close> already assigned.
\<close>

definition loadData_try ::
  "(nat \<Rightarrow> string) \<Rightarrow> nat \<Rightarrow> (string \<Rightarrow> int option) \<Rightarrow> fetch_outcome \<Rightarrow> app \<Rightarrow>
     app \<times> dom_write list \<times> js_error option" where
  "loadData_try toLocaleString maxArguments getTime outcome st =
     (case outcome of
        FetchFails \<Rightarrow> (st, [], Some FetchRejected)
      | Response ok code body \<Rightarrow>
          if \<not> ok then (st, [], Some (HttpError code))
          else (case body of
                  JsonFails \<Rightarrow> (st, [], Some JsonRejected)
                | JsonNull \<Rightarrow> (st, [], Some NullData)
                | JsonObject data \<Rightarrow>
                    let st' = st\<lparr>allItems := (case items data of None \<Rightarrow> [] | Some xs \<Rightarrow> xs)\<rparr>;
                        updated =
                          [TextContent ''updatedAt''
                             (UPDATED_PREFIX @
                                (case updated_at data of
                                   None \<Rightarrow> ''-''
                                 | Some s \<Rightarrow> if s = '''' then ''-'' else s))];
                        (summary, thrown) = updateSummary toLocaleString maxArguments data
                    in (case thrown of
                          Some e \<Rightarrow> (st', updated @ summary, Some e)
                        | None \<Rightarrow> (st', updated @ summary @ renderCards getTime st', None))))"

text \<open>
  \<^verbatim>\<open>loadData\<close>: the \<^verbatim>\<open>catch\<close> block logs the error and shows the load-failure block.
  \<^verbatim>\<open>
  try { ... } catch (e) {
    console.error(MESSAGE, e);
    document.getElementById('cardList').innerHTML = LOAD_FAILED_BLOCK;
  }
  \<close>
\<close>

definition loadData ::
  "(nat \<Rightarrow> string) \<Rightarrow> nat \<Rightarrow> (string \<Rightarrow> int option) \<Rightarrow> fetch_outcome \<Rightarrow> app \<Rightarrow>
     app \<times> dom_write list" where
  "loadData toLocaleString maxArguments getTime outcome st =
     (let (st', ws, thrown) = loadData_try toLocaleString maxArguments getTime outcome st
      in case thrown of
           None \<Rightarrow> (st', ws)
         | Some e \<Rightarrow> (st', ws @ [ConsoleError e, CardListHTML LoadFailedHTML]))"

text \<open>
  \<^verbatim>\<open>
  function openDetail(id) {
    const item = allItems.find(i => i.id === id);
    if (!item) return;
    panel.innerHTML = buildDetailHTML(item);
    overlay.classList.add('active');
    document.body.style.overflow = 'hidden';
  }
  \<close>
\<close>

definition openDetail :: "listing list \<Rightarrow> string \<Rightarrow> dom_write list" where
  "openDetail its i =
     (case find (\<lambda>it. item_id it = i) its of
        None \<Rightarrow> []
      | Some item \<Rightarrow> [PanelHTML item, OverlayActive True, BodyOverflow ''hidden''])"

text \<open>
  \<^verbatim>\<open>
  function closeDetail() {
    overlay.classList.remove('active');
    document.body.style.overflow = '';
    if (window.location.hash.startsWith('#detail/')) {
      history.pushState(null, '', window.location.pathname);
    }
  }
  \<close>
  \<^verbatim>\<open>pushState\<close> to the bare path empties the fragment; the new fragment is returned.
\<close>

definition closeDetail :: "string \<Rightarrow> string \<times> dom_write list" where
  "closeDetail h =
     (if startsWith h ''#detail/'' then '''' else h,
      [OverlayActive False, BodyOverflow ''''])"

text \<open>
  \<^verbatim>\<open>
  function handleHashChange() {
    const hash = window.location.hash;
    if (hash.startsWith('#detail/')) {
      const id = hash.replace('#detail/', '');
      openDetail(id);
    } else {
      closeDetail();
    }
  }
  \<close>
\<close>

definition handleHashChange :: "app \<Rightarrow> app \<times> dom_write list" where
  "handleHashChange st =
     (let hash = location_hash st
      in if startsWith hash ''#detail/'' then
           (let i = replace ''#detail/'' '''' hash
            in (st, openDetail (allItems st) i))
         else
           (let (h', ws) = closeDetail hash
            in (st\<lparr>location_hash := h'\<rparr>, ws)))"

subsection \<open>The specification's vocabulary\<close>

text \<open>
  Two notions of the specification that the source has no name for, written from the
  specification's words so that the code can be compared with them.

  The navigation state read off the fragment: \<^verbatim>\<open>#detail/{id}\<close> is the detail view of \<open>id\<close>,
  anything else the list view.
\<close>

datatype nav = List_view | Detail string

definition nav_state :: "string \<Rightarrow> nav" where
  "nav_state fragment =
     (if startsWith fragment ''#detail/'' then Detail (drop (length ''#detail/'') fragment)
      else List_view)"

text \<open>
  The reference date: the first present of the receipt-start date and the announcement
  date, an empty string counting as absent; and the sort key it stands for, 0 when
  no date is present or the date does not parse.
\<close>

definition present :: "string option \<Rightarrow> bool" where
  "present d = (d \<noteq> None \<and> d \<noteq> Some '''')"

definition reference_date :: "listing \<Rightarrow> string option" where
  "reference_date item =
     (case schedule item of
        None \<Rightarrow> None
      | Some s \<Rightarrow>
          if present (receipt_start s) then receipt_start s
          else if present (announcement_date s) then announcement_date s
          else None)"

definition reference_key :: "(string \<Rightarrow> int option) \<Rightarrow> listing \<Rightarrow> int" where
  "reference_key getTime item =
     (case reference_date item of
        None \<Rightarrow> 0
      | Some d \<Rightarrow> (case getTime d of None \<Rightarrow> 0 | Some t \<Rightarrow> t))"

text \<open>
  A date parser for the examples: the timestamps ECMAScript gives the date-only strings
  \<^verbatim>\<open>1970-01-01\<close> and \<^verbatim>\<open>2024-05-01\<close> (midnight UTC), every other string being invalid.
\<close>

definition iso_dates :: "string \<Rightarrow> int option" where
  "iso_dates s =
     (if s = ''1970-01-01'' then Some 0
      else if s = ''2024-05-01'' then Some 1714521600000
      else None)"

section \<open>Evaluation rules\<close>

declare String_nat.simps [simp del] group3.simps [simp del]

lemma String_nat_small: "n < 10 \<Longrightarrow> String_nat n = [digit n]"
  by (subst String_nat.simps) simp

lemma String_nat_large:
  "10 \<le> n \<Longrightarrow> String_nat n = String_nat (n div 10) @ [digit (n mod 10)]"
  by (subst String_nat.simps) simp

lemma group3_small: "n < 1000 \<Longrightarrow> group3 sep n = String_nat n"
  by (subst group3.simps) simp

lemma group3_large:
  "1000 \<le> n \<Longrightarrow> group3 sep n = group3 sep (n div 1000) @ [sep] @
     [digit (n mod 1000 div 100), digit (n mod 100 div 10), digit (n mod 10)]"
  by (subst group3.simps) simp

lemmas number_format =
  String_nat_small String_nat_large group3_small group3_large digit_def ko_KR_def de_DE_def

lemma or0_case: "or0 x = (case x of None \<Rightarrow> 0 | Some t \<Rightarrow> t)"
  by (cases x) (simp_all add: or0_def)


section \<open>Currency formatting\<close>




text \<open>
  C6, as stated: the groups carry thousands separators as in the examples, so that
  250,000,000 renders with the group 5,000. The code calls \<^verbatim>\<open>toLocaleString()\<close> without a
  locale: in a runtime whose default locale is \<^verbatim>\<open>de-DE\<close> the group is 5.000.
\<close>

theorem formatMoney_locale_counterexample:
  "formatMoney de_DE (Some 250000000) = ''2'' @ EOK @ '' 5.000'' @ MAN \<and>
   formatMoney de_DE (Some 250000000) \<noteq> ''2'' @ EOK @ '' 5,000'' @ MAN"
  by (simp add: formatMoney_def number_format Let_def)

text \<open>
  C6, amended: for an integer amount that is present, nonzero and of absolute value at
  most \<open>2^53 - 1\<close>, the result is the sign, a dash when the amount is negative, followed by
  the abbreviation of the absolute value: from 100,000,000 up, the count of
  hundred-millions in plain decimal and the unit EOK, then, only when the ten-thousands
  group of the remainder is nonzero, a space, that group as \<^verbatim>\<open>toLocaleString()\<close> renders
  it in the runtime's default locale and the unit MAN; from 10,000 up, the count of
  ten-thousands so rendered and MAN; below, the absolute value so rendered and the won
  sign. Where the default locale groups digits by commas, as \<^verbatim>\<open>ko-KR\<close> does, the four
  examples of the specification hold.
\<close>

theorem formatMoney_rule:
  "(a \<noteq> 0 \<and> \<bar>a\<bar> \<le> 9007199254740991 \<longrightarrow>
     formatMoney loc (Some a) =
       (if a < 0 then ''-'' else '''') @
       (if \<bar>a\<bar> \<ge> 100000000 then
          String_nat (nat (\<bar>a\<bar> div 100000000)) @ EOK @
            (if \<bar>a\<bar> mod 100000000 div 10000 \<noteq> 0
             then '' '' @ loc (nat (\<bar>a\<bar> mod 100000000 div 10000)) @ MAN
             else '''')
        else if \<bar>a\<bar> \<ge> 10000 then loc (nat (\<bar>a\<bar> div 10000)) @ MAN
        else loc (nat \<bar>a\<bar>) @ WON)) \<and>
   formatMoney ko_KR (Some 250000000) = ''2'' @ EOK @ '' 5,000'' @ MAN \<and>
   formatMoney ko_KR (Some 15000) = ''1'' @ MAN \<and>
   formatMoney ko_KR (Some 500) = ''500'' @ WON \<and>
   formatMoney ko_KR (Some (- 120000000)) = ''-1'' @ EOK @ '' 2,000'' @ MAN"
proof (intro conjI impI)
  assume "a \<noteq> 0 \<and> \<bar>a\<bar> \<le> 9007199254740991"
  then have nz: "a \<noteq> 0" by simp
  define n where "n = nat \<bar>a\<bar>"
  have abs_n: "\<bar>a\<bar> = int n" by (simp add: n_def)
  have d1: "nat (int n div 100000000) = n div 100000000"
    and d2: "nat (int n mod 100000000 div 10000) = n mod 100000000 div 10000"
    and d3: "nat (int n div 10000) = n div 10000"
    by (simp_all add: nat_div_distrib nat_mod_distrib)
  have z: "(int n mod 100000000 div 10000 \<noteq> 0) = (0 < n mod 100000000 div 10000)"
    using d2 by linarith
  have g1: "(100000000 \<le> int n) = (100000000 \<le> n)"
    and g2: "(10000 \<le> int n) = (10000 \<le> n)" by linarith+
  have "formatMoney loc (Some a) =
       (if a < 0 then ''-'' else '''') @
       (if n \<ge> 100000000 then
          String_nat (n div 100000000) @ EOK @
            (if 0 < n mod 100000000 div 10000
             then '' '' @ loc (n mod 100000000 div 10000) @ MAN
             else '''')
        else if n \<ge> 10000 then loc (n div 10000) @ MAN
        else loc n @ WON)"
    using nz by (simp add: formatMoney_def Let_def n_def)
  then show "formatMoney loc (Some a) =
       (if a < 0 then ''-'' else '''') @
       (if \<bar>a\<bar> \<ge> 100000000 then
          String_nat (nat (\<bar>a\<bar> div 100000000)) @ EOK @
            (if \<bar>a\<bar> mod 100000000 div 10000 \<noteq> 0
             then '' '' @ loc (nat (\<bar>a\<bar> mod 100000000 div 10000)) @ MAN
             else '''')
        else if \<bar>a\<bar> \<ge> 10000 then loc (nat (\<bar>a\<bar> div 10000)) @ MAN
        else loc (nat \<bar>a\<bar>) @ WON)"
    unfolding abs_n d1 d2 d3 z g1 g2 by (simp only: nat_int)
next
  show "formatMoney ko_KR (Some 250000000) = ''2'' @ EOK @ '' 5,000'' @ MAN"
    by (simp add: formatMoney_def number_format Let_def)
next
  show "formatMoney ko_KR (Some 15000) = ''1'' @ MAN"
    by (simp add: formatMoney_def number_format Let_def)
next
  show "formatMoney ko_KR (Some 500) = ''500'' @ WON"
    by (simp add: formatMoney_def number_format Let_def)
next
  show "formatMoney ko_KR (Some (- 120000000)) = ''-1'' @ EOK @ '' 2,000'' @ MAN"
    by (simp add: formatMoney_def number_format Let_def)
qed

text \<open>
  The rule at 5000 and at -98765 in each of the two locales: below 10,000 the locale's
  separator is applied too.
\<close>

theorem formatMoney_rule_witness:
  "formatMoney ko_KR (Some 5000) = ''5,000'' @ WON \<and>
   formatMoney de_DE (Some 5000) = ''5.000'' @ WON \<and>
   formatMoney ko_KR (Some (- 98765)) = ''-9'' @ MAN"
  using formatMoney_rule [where a = 5000 and loc = ko_KR]
    formatMoney_rule [where a = 5000 and loc = de_DE]
    formatMoney_rule [where a = "- 98765" and loc = ko_KR]
  by (simp add: number_format)

section \<open>Best model selection\<close>

lemma reduce_first_max:
  fixes key :: "'a \<Rightarrow> int"
  shows "\<exists>i<length (x # xs).
           foldl (\<lambda>best m. if key m > key best then m else best) x xs = (x # xs) ! i \<and>
           (\<forall>j<i. key ((x # xs) ! j) < key ((x # xs) ! i)) \<and>
           (\<forall>j<length (x # xs). key ((x # xs) ! j) \<le> key ((x # xs) ! i))"
proof (induction xs rule: rev_induct)
  case Nil
  then show ?case by simp
next
  case (snoc y ys)
  define zs where "zs = x # ys"
  define k where "k = length zs"
  define best where "best = foldl (\<lambda>best m. if key m > key best then m else best) x ys"
  from snoc obtain i where i: "i < k"
    and res: "best = zs ! i"
    and before: "\<forall>j<i. key (zs ! j) < key (zs ! i)"
    and all: "\<forall>j<k. key (zs ! j) \<le> key (zs ! i)"
    unfolding zs_def k_def best_def by blast
  have old: "(zs @ [y]) ! j = zs ! j" if "j < k" for j
    using that by (simp add: nth_append k_def)
  have new: "(zs @ [y]) ! k = y"
    by (simp add: k_def)
  have len: "length (zs @ [y]) = Suc k"
    by (simp add: k_def)
  have step: "foldl (\<lambda>best m. if key m > key best then m else best) x (ys @ [y]) =
      (if key y > key best then y else best)"
    by (simp add: best_def)
  have goal: "\<exists>i<Suc k.
      (if key y > key best then y else best) = (zs @ [y]) ! i \<and>
      (\<forall>j<i. key ((zs @ [y]) ! j) < key ((zs @ [y]) ! i)) \<and>
      (\<forall>j<Suc k. key ((zs @ [y]) ! j) \<le> key ((zs @ [y]) ! i))"
  proof (cases "key y > key best")
    case True
    have "\<forall>j<k. key ((zs @ [y]) ! j) < key ((zs @ [y]) ! k)"
      using all True res by (simp add: old new) (metis le_less_trans)
    moreover have "\<forall>j<Suc k. key ((zs @ [y]) ! j) \<le> key ((zs @ [y]) ! k)"
      using calculation by (auto simp: less_Suc_eq intro: less_imp_le)
    ultimately show ?thesis
      using True new by (intro exI [of _ k]) simp
  next
    case False
    have "\<forall>j<i. key ((zs @ [y]) ! j) < key ((zs @ [y]) ! i)"
      using before i by (simp add: old)
    moreover have "\<forall>j<Suc k. key ((zs @ [y]) ! j) \<le> key ((zs @ [y]) ! i)"
      using all False res i by (auto simp: less_Suc_eq old new)
    ultimately show ?thesis
      using False res i by (intro exI [of _ i]) (simp add: old)
  qed
  have eq: "x # ys @ [y] = zs @ [y]" by (simp add: zs_def)
  show ?case
    unfolding step eq len by (rule goal)
qed

lemma getBestModel_reduce:
  "getBestModel (Some (x # xs)) =
     Some (foldl (\<lambda>best m. if or0 (profit m) > or0 (profit best) then m else best) x xs)"
  by (simp add: getBestModel_def)

lemma getBestModel_index:
  assumes "ms \<noteq> []"
  shows "\<exists>i<length ms. getBestModel (Some ms) = Some (ms ! i) \<and>
           (\<forall>j<i. or0 (profit (ms ! j)) < or0 (profit (ms ! i))) \<and>
           (\<forall>j<length ms. or0 (profit (ms ! j)) \<le> or0 (profit (ms ! i)))"
proof -
  from assms obtain x xs where ms: "ms = x # xs" by (cases ms) auto
  show ?thesis
    unfolding ms getBestModel_reduce
    using reduce_first_max [of x xs "\<lambda>m. or0 (profit m)"] by simp
qed


text \<open>
  C2: on a non-empty sequence \<^verbatim>\<open>getBestModel\<close> returns the first maximal element by
  position: the element at an index \<open>i\<close> whose profit (a missing one read as 0, as the
  comparison does) is strictly greater than that of every earlier element and at least
  that of every element, so a later element of equal profit does not replace it. On the
  empty sequence it returns nothing. Of three models with profits 5, 9 and 9 it returns
  the second.
\<close>

theorem getBestModel_first_maximal:
  "getBestModel (Some []) = None \<and>
   (ms \<noteq> [] \<longrightarrow>
      (\<exists>i<length ms. getBestModel (Some ms) = Some (ms ! i) \<and>
         (\<forall>j<i. or0 (profit (ms ! j)) < or0 (profit (ms ! i))) \<and>
         (\<forall>j<length ms. or0 (profit (ms ! j)) \<le> or0 (profit (ms ! i))))) \<and>
   getBestModel (Some
     [\<lparr>housing_type = Some ''59A'', profit = Some 5\<rparr>,
      \<lparr>housing_type = Some ''74A'', profit = Some 9\<rparr>,
      \<lparr>housing_type = Some ''84A'', profit = Some 9\<rparr>]) =
     Some \<lparr>housing_type = Some ''74A'', profit = Some 9\<rparr>"
proof (intro conjI impI)
  show "getBestModel (Some []) = None"
    by (simp add: getBestModel_def)
next
  assume "ms \<noteq> []"
  then show "\<exists>i<length ms. getBestModel (Some ms) = Some (ms ! i) \<and>
         (\<forall>j<i. or0 (profit (ms ! j)) < or0 (profit (ms ! i))) \<and>
         (\<forall>j<length ms. or0 (profit (ms ! j)) \<le> or0 (profit (ms ! i)))"
    by (rule getBestModel_index)
next
  show "getBestModel (Some
     [\<lparr>housing_type = Some ''59A'', profit = Some 5\<rparr>,
      \<lparr>housing_type = Some ''74A'', profit = Some 9\<rparr>,
      \<lparr>housing_type = Some ''84A'', profit = Some 9\<rparr>]) =
     Some \<lparr>housing_type = Some ''74A'', profit = Some 9\<rparr>"
    by (simp add: getBestModel_def or0_def)
qed

text \<open>The theorem on two models of equal profit: the first one is returned.\<close>

theorem getBestModel_first_maximal_witness:
  "let ms = [\<lparr>housing_type = Some ''59A'', profit = Some 7\<rparr>,
             \<lparr>housing_type = Some ''84B'', profit = Some 7\<rparr>]
   in ms \<noteq> [] \<and>
      (\<exists>i<length ms. getBestModel (Some ms) = Some (ms ! i) \<and>
         (\<forall>j<i. or0 (profit (ms ! j)) < or0 (profit (ms ! i))) \<and>
         (\<forall>j<length ms. or0 (profit (ms ! j)) \<le> or0 (profit (ms ! i))))"
  using getBestModel_first_maximal
    [of "[\<lparr>housing_type = Some ''59A'', profit = Some 7\<rparr>,
          \<lparr>housing_type = Some ''84B'', profit = Some 7\<rparr>]"]
  by (simp add: Let_def)

lemma getBestModel_member:
  assumes "ms \<noteq> []"
  shows "\<exists>m\<in>set ms. getBestModel (Some ms) = Some m \<and>
           (\<forall>x\<in>set ms. or0 (profit x) \<le> or0 (profit m))"
proof -
  from getBestModel_index [OF assms] obtain i where i: "i < length ms"
    and res: "getBestModel (Some ms) = Some (ms ! i)"
    and all: "\<forall>j<length ms. or0 (profit (ms ! j)) \<le> or0 (profit (ms ! i))"
    by blast
  have "\<forall>x\<in>set ms. or0 (profit x) \<le> or0 (profit (ms ! i))"
    using all by (auto simp: in_set_conv_nth)
  then show ?thesis
    using i res by (intro bexI [of _ "ms ! i"]) simp_all
qed

text \<open>
  C10: \<^verbatim>\<open>getBestModel\<close> is total. A null or undefined argument and the empty sequence
  give nothing; on a non-empty sequence the result is an element of the input whose
  profit, a missing one read as 0, is maximal among all elements, and it is never a model
  of negative profit when some model's profit is absent.
\<close>

theorem getBestModel_total:
  "getBestModel None = None \<and> getBestModel (Some []) = None \<and>
   (ms \<noteq> [] \<longrightarrow>
      (\<exists>m\<in>set ms. getBestModel (Some ms) = Some m \<and>
         (\<forall>x\<in>set ms. or0 (profit x) \<le> or0 (profit m)) \<and>
         (\<forall>x\<in>set ms. \<forall>y\<in>set ms.
            profit x = None \<and> or0 (profit y) < 0 \<longrightarrow> getBestModel (Some ms) \<noteq> Some y)))"
proof (intro conjI impI)
  show "getBestModel None = None" "getBestModel (Some []) = None"
    by (simp_all add: getBestModel_def)
next
  assume "ms \<noteq> []"
  then obtain m where m: "m \<in> set ms" and res: "getBestModel (Some ms) = Some m"
    and all: "\<forall>x\<in>set ms. or0 (profit x) \<le> or0 (profit m)"
    using getBestModel_member by blast
  have "getBestModel (Some ms) \<noteq> Some y"
    if "x \<in> set ms" "profit x = None" "or0 (profit y) < 0" for x y
  proof
    assume "getBestModel (Some ms) = Some y"
    then have "y = m" using res by simp
    moreover have "or0 (profit x) = 0" using that by (simp add: or0_def)
    ultimately show False using all that by fastforce
  qed
  then show "\<exists>m\<in>set ms. getBestModel (Some ms) = Some m \<and>
         (\<forall>x\<in>set ms. or0 (profit x) \<le> or0 (profit m)) \<and>
         (\<forall>x\<in>set ms. \<forall>y\<in>set ms.
            profit x = None \<and> or0 (profit y) < 0 \<longrightarrow> getBestModel (Some ms) \<noteq> Some y)"
    using m res all by blast
qed

text \<open>The theorem on a model of profit -3 followed by one without profit: the first is not returned.\<close>

theorem getBestModel_total_witness:
  "getBestModel (Some [\<lparr>housing_type = Some ''59A'', profit = Some (- 3)\<rparr>,
                       \<lparr>housing_type = Some ''84B'', profit = None\<rparr>])
     \<noteq> Some \<lparr>housing_type = Some ''59A'', profit = Some (- 3)\<rparr>"
  using getBestModel_total
    [of "[\<lparr>housing_type = Some ''59A'', profit = Some (- 3)\<rparr>,
          \<lparr>housing_type = Some ''84B'', profit = None\<rparr>]"]
  by (auto simp: or0_def)

section \<open>Sorting\<close>

lemma insert_cmp_insort_key:
  fixes k :: "'a \<Rightarrow> int"
  assumes "\<And>a b. (cmp a b \<le> 0) = (k a \<le> k b)"
  shows "insert_cmp cmp x ys = insort_key k x ys"
  by (induction ys) (simp_all add: assms)

lemma Array_sort_sort_key:
  fixes k :: "'a \<Rightarrow> int"
  assumes "\<And>a b. (cmp a b \<le> 0) = (k a \<le> k b)"
  shows "Array_sort cmp xs = sort_key k xs"
proof -
  have "insert_cmp cmp = insort_key k"
    using insert_cmp_insort_key [of cmp k, OF assms] by (intro ext)
  then show ?thesis
    by (simp add: Array_sort_def sort_key_def)
qed

lemma applySort_profit_desc:
  "applySort g ''profit-desc'' xs = sort_key (\<lambda>i. - or0 (max_profit i)) xs"
  by (simp add: applySort_def comparator_def Array_sort_sort_key)

lemma applySort_profit_asc:
  "applySort g ''profit-asc'' xs = sort_key (\<lambda>i. or0 (max_profit i)) xs"
  by (simp add: applySort_def comparator_def Array_sort_sort_key)

lemma applySort_date_asc:
  "applySort g ''date-asc'' xs = sort_key (bestDate g) xs"
  by (simp add: applySort_def comparator_def Array_sort_sort_key)

lemma applySort_date_desc:
  "applySort g ''date-desc'' xs = sort_key (\<lambda>i. - bestDate g i) xs"
  by (simp add: applySort_def comparator_def Array_sort_sort_key)

lemma sort_key_twice:
  fixes k :: "'a \<Rightarrow> int"
  shows "sort_key k (sort_key k xs) = sort_key k xs"
  by (simp add: sort_key_id_if_sorted)

text \<open>
  C5: sorting with the key \<^verbatim>\<open>profit-desc\<close> gives a permutation of the input, non-increasing
  in \<^verbatim>\<open>max_profit\<close> with a missing value read as 0, and stable: for each key value the
  items of that key are in their input order. A second filter-then-sort pass keeps them so,
  and indeed changes nothing. Five listings with profits 1, none, 3, 1 and -2 come out in
  the order 3, 1, 1, none, -2, the two of profit 1 as they came.
\<close>

theorem applySort_profit_desc_stable:
  "mset (applySort g ''profit-desc'' xs) = mset xs \<and>
   sorted_wrt (\<lambda>a b. (case max_profit a of None \<Rightarrow> 0 | Some p \<Rightarrow> p) \<ge>
                     (case max_profit b of None \<Rightarrow> 0 | Some p \<Rightarrow> p))
     (applySort g ''profit-desc'' xs) \<and>
   (\<forall>k. filter (\<lambda>i. (case max_profit i of None \<Rightarrow> 0 | Some p \<Rightarrow> p) = k)
          (applySort g ''profit-desc'' xs) =
        filter (\<lambda>i. (case max_profit i of None \<Rightarrow> 0 | Some p \<Rightarrow> p) = k) xs) \<and>
   (\<forall>k. filter (\<lambda>i. (case max_profit i of None \<Rightarrow> 0 | Some p \<Rightarrow> p) = k)
          (applySort g ''profit-desc'' (applyFilters af
             (applySort g ''profit-desc'' (applyFilters af xs)))) =
        filter (\<lambda>i. (case max_profit i of None \<Rightarrow> 0 | Some p \<Rightarrow> p) = k)
          (applyFilters af xs)) \<and>
   applySort g ''profit-desc'' (applyFilters af
      (applySort g ''profit-desc'' (applyFilters af xs))) =
     applySort g ''profit-desc'' (applyFilters af xs) \<and>
   applySort g ''profit-desc''
     [\<lparr>item_id = ''a'', status = None, region = None, max_profit = Some 1,
       schedule = None, models = None\<rparr>,
      \<lparr>item_id = ''b'', status = None, region = None, max_profit = None,
       schedule = None, models = None\<rparr>,
      \<lparr>item_id = ''c'', status = None, region = None, max_profit = Some 3,
       schedule = None, models = None\<rparr>,
      \<lparr>item_id = ''d'', status = None, region = None, max_profit = Some 1,
       schedule = None, models = None\<rparr>,
      \<lparr>item_id = ''e'', status = None, region = None, max_profit = Some (- 2),
       schedule = None, models = None\<rparr>] =
     [\<lparr>item_id = ''c'', status = None, region = None, max_profit = Some 3,
       schedule = None, models = None\<rparr>,
      \<lparr>item_id = ''a'', status = None, region = None, max_profit = Some 1,
       schedule = None, models = None\<rparr>,
      \<lparr>item_id = ''d'', status = None, region = None, max_profit = Some 1,
       schedule = None, models = None\<rparr>,
      \<lparr>item_id = ''b'', status = None, region = None, max_profit = None,
       schedule = None, models = None\<rparr>,
      \<lparr>item_id = ''e'', status = None, region = None, max_profit = Some (- 2),
       schedule = None, models = None\<rparr>]"
proof -
  let ?k = "\<lambda>i. - or0 (max_profit i)"
  let ?key = "\<lambda>i. case max_profit i of None \<Rightarrow> 0 | Some p \<Rightarrow> p"
  have key: "?key i = or0 (max_profit i)" for i :: listing
    by (simp add: or0_case)
  have perm: "mset (applySort g ''profit-desc'' xs) = mset xs"
    by (simp add: applySort_profit_desc)
  have "sorted (map ?k (sort_key ?k xs))"
    by (rule sorted_sort_key)
  then have desc: "sorted_wrt (\<lambda>a b. ?key a \<ge> ?key b) (applySort g ''profit-desc'' xs)"
    unfolding key by (simp add: applySort_profit_desc sorted_map)
  have stable: "filter (\<lambda>i. ?key i = k) (applySort g ''profit-desc'' ys) =
      filter (\<lambda>i. ?key i = k) ys" for k ys
  proof -
    have "filter (\<lambda>i. ?k i = - k) (sort_key ?k ys) = filter (\<lambda>i. ?k i = - k) ys"
      by (rule sort_key_stable)
    then show ?thesis unfolding key by (simp add: applySort_profit_desc)
  qed
  have twice: "applySort g ''profit-desc'' (applyFilters af
      (applySort g ''profit-desc'' (applyFilters af xs))) =
     applySort g ''profit-desc'' (applyFilters af xs)"
    by (simp add: applySort_profit_desc applyFilters_def filter_sort sort_key_twice)
  have five: "applySort g ''profit-desc''
     [\<lparr>item_id = ''a'', status = None, region = None, max_profit = Some 1,
       schedule = None, models = None\<rparr>,
      \<lparr>item_id = ''b'', status = None, region = None, max_profit = None,
       schedule = None, models = None\<rparr>,
      \<lparr>item_id = ''c'', status = None, region = None, max_profit = Some 3,
       schedule = None, models = None\<rparr>,
      \<lparr>item_id = ''d'', status = None, region = None, max_profit = Some 1,
       schedule = None, models = None\<rparr>,
      \<lparr>item_id = ''e'', status = None, region = None, max_profit = Some (- 2),
       schedule = None, models = None\<rparr>] =
     [\<lparr>item_id = ''c'', status = None, region = None, max_profit = Some 3,
       schedule = None, models = None\<rparr>,
      \<lparr>item_id = ''a'', status = None, region = None, max_profit = Some 1,
       schedule = None, models = None\<rparr>,
      \<lparr>item_id = ''d'', status = None, region = None, max_profit = Some 1,
       schedule = None, models = None\<rparr>,
      \<lparr>item_id = ''b'', status = None, region = None, max_profit = None,
       schedule = None, models = None\<rparr>,
      \<lparr>item_id = ''e'', status = None, region = None, max_profit = Some (- 2),
       schedule = None, models = None\<rparr>]"
    by (simp add: applySort_def comparator_def Array_sort_def or0_def)
  have second: "filter (\<lambda>i. ?key i = k)
          (applySort g ''profit-desc'' (applyFilters af
             (applySort g ''profit-desc'' (applyFilters af xs)))) =
        filter (\<lambda>i. ?key i = k) (applyFilters af xs)" for k
    unfolding twice by (rule stable)
  show ?thesis
    by (intro conjI allI) (rule perm desc stable second twice five)+
qed

text \<open>
  The theorem on three listings, two without profit around one of profit 5: that one
  comes first and the other two keep their order.
\<close>

theorem applySort_profit_desc_stable_witness:
  "let xs = [\<lparr>item_id = ''x'', status = None, region = None, max_profit = None,
              schedule = None, models = None\<rparr>,
             \<lparr>item_id = ''y'', status = None, region = None, max_profit = Some 5,
              schedule = None, models = None\<rparr>,
             \<lparr>item_id = ''z'', status = None, region = None, max_profit = None,
              schedule = None, models = None\<rparr>]
   in applySort (\<lambda>s. None) ''profit-desc'' xs = [xs ! 1, xs ! 0, xs ! 2] \<and>
      mset (applySort (\<lambda>s. None) ''profit-desc'' xs) = mset xs \<and>
      filter (\<lambda>i. (case max_profit i of None \<Rightarrow> 0 | Some p \<Rightarrow> p) = 0)
        (applySort (\<lambda>s. None) ''profit-desc'' xs) = [xs ! 0, xs ! 2]"
  using applySort_profit_desc_stable
    [where g = "\<lambda>s. None"
       and xs = "[\<lparr>item_id = ''x'', status = None, region = None, max_profit = None,
              schedule = None, models = None\<rparr>,
             \<lparr>item_id = ''y'', status = None, region = None, max_profit = Some 5,
              schedule = None, models = None\<rparr>,
             \<lparr>item_id = ''z'', status = None, region = None, max_profit = None,
              schedule = None, models = None\<rparr>]",
     THEN conjunct2, THEN conjunct2, THEN conjunct1]
  by (simp add: Let_def applySort_def comparator_def Array_sort_def or0_def)

section \<open>Filtering\<close>

lemma keep_status_only:
  "keep (af\<lparr>filter_region := ''all''\<rparr>) item =
     (if filter_status af = ''upcoming''
      then status item = Some STATUS_UPCOMING \<or> status item = Some STATUS_OPEN
      else filter_status af = ''all'' \<or> status item = Some (filter_status af))"
  by (simp add: keep_def)

lemma keep_region_only:
  "keep (af\<lparr>filter_status := ''all''\<rparr>) item =
     (filter_region af = ''all'' \<or> region item = Some (filter_region af))"
  by (simp add: keep_def)

lemma keep_conj:
  "keep af item =
     (keep (af\<lparr>filter_region := ''all''\<rparr>) item \<and> keep (af\<lparr>filter_status := ''all''\<rparr>) item)"
  unfolding keep_status_only keep_region_only by (auto simp: keep_def)

lemma keep_fun:
  "keep af =
     (\<lambda>L. keep (af\<lparr>filter_region := ''all''\<rparr>) L \<and> keep (af\<lparr>filter_status := ''all''\<rparr>) L)"
  by (rule ext) (rule keep_conj)

text \<open>
  C4: with the status filter \<^verbatim>\<open>upcoming\<close> (and no region restriction) a listing is retained
  exactly when its status is one of the two literals for upcoming and open; with the
  region filter \<^verbatim>\<open>all\<close> (and no status restriction) every item is retained; the status
  filter alone retains by status, the region filter alone the listings of that region;
  and the two filters compose by
  conjunction: an item is retained exactly when the status filter alone and the region
  filter alone both retain it, which is also filtering by one and then by the other.
\<close>

theorem applyFilters_meaning:
  "(filter_status af = ''upcoming'' \<and> filter_region af = ''all'' \<longrightarrow>
      applyFilters af xs =
        filter (\<lambda>L. status L = Some STATUS_UPCOMING \<or> status L = Some STATUS_OPEN) xs \<and>
      (\<forall>L. L \<in> set (applyFilters af xs) \<longleftrightarrow>
         L \<in> set xs \<and> (status L = Some STATUS_UPCOMING \<or> status L = Some STATUS_OPEN))) \<and>
   (filter_status af = ''all'' \<and> filter_region af = ''all'' \<longrightarrow> applyFilters af xs = xs) \<and>
   applyFilters (af\<lparr>filter_region := ''all''\<rparr>) xs =
     filter (\<lambda>L. if filter_status af = ''upcoming''
                 then status L = Some STATUS_UPCOMING \<or> status L = Some STATUS_OPEN
                 else filter_status af = ''all'' \<or> status L = Some (filter_status af)) xs \<and>
   applyFilters (af\<lparr>filter_status := ''all''\<rparr>) xs =
     filter (\<lambda>L. filter_region af = ''all'' \<or> region L = Some (filter_region af)) xs \<and>
   applyFilters af xs =
     filter (\<lambda>L. keep (af\<lparr>filter_region := ''all''\<rparr>) L \<and> keep (af\<lparr>filter_status := ''all''\<rparr>) L) xs \<and>
   applyFilters af xs =
     applyFilters (af\<lparr>filter_region := ''all''\<rparr>) (applyFilters (af\<lparr>filter_status := ''all''\<rparr>) xs)"
proof (intro conjI impI)
  assume a: "filter_status af = ''upcoming'' \<and> filter_region af = ''all''"
  then have k: "keep af = (\<lambda>L. status L = Some STATUS_UPCOMING \<or> status L = Some STATUS_OPEN)"
    by (auto simp: keep_def fun_eq_iff)
  show "applyFilters af xs =
        filter (\<lambda>L. status L = Some STATUS_UPCOMING \<or> status L = Some STATUS_OPEN) xs"
    by (simp add: applyFilters_def k)
  show "\<forall>L. L \<in> set (applyFilters af xs) \<longleftrightarrow>
         L \<in> set xs \<and> (status L = Some STATUS_UPCOMING \<or> status L = Some STATUS_OPEN)"
    by (simp add: applyFilters_def k)
next
  assume "filter_status af = ''all'' \<and> filter_region af = ''all''"
  then have "keep af = (\<lambda>L. True)"
    by (auto simp: keep_def fun_eq_iff)
  then show "applyFilters af xs = xs"
    by (simp add: applyFilters_def)
next
  show "applyFilters (af\<lparr>filter_region := ''all''\<rparr>) xs =
     filter (\<lambda>L. if filter_status af = ''upcoming''
                 then status L = Some STATUS_UPCOMING \<or> status L = Some STATUS_OPEN
                 else filter_status af = ''all'' \<or> status L = Some (filter_status af)) xs"
    unfolding applyFilters_def keep_status_only ..
next
  show "applyFilters (af\<lparr>filter_status := ''all''\<rparr>) xs =
     filter (\<lambda>L. filter_region af = ''all'' \<or> region L = Some (filter_region af)) xs"
    unfolding applyFilters_def keep_region_only ..
next
  show "applyFilters af xs =
     filter (\<lambda>L. keep (af\<lparr>filter_region := ''all''\<rparr>) L \<and> keep (af\<lparr>filter_status := ''all''\<rparr>) L) xs"
    unfolding applyFilters_def by (subst keep_fun) (rule refl)
next
  show "applyFilters af xs =
     applyFilters (af\<lparr>filter_region := ''all''\<rparr>) (applyFilters (af\<lparr>filter_status := ''all''\<rparr>) xs)"
    unfolding applyFilters_def filter_filter by (subst keep_fun) (simp add: conj_commute)
qed

text \<open>The default filters on an open, a closed and an upcoming listing: the first and the third stay.\<close>

theorem applyFilters_meaning_witness:
  "let af = \<lparr>filter_status = ''upcoming'', filter_region = ''all''\<rparr>;
       xs = [\<lparr>item_id = ''a'', status = Some STATUS_OPEN, region = Some ''seoul'',
              max_profit = None, schedule = None, models = None\<rparr>,
             \<lparr>item_id = ''b'', status = Some ''closed'', region = Some ''seoul'',
              max_profit = None, schedule = None, models = None\<rparr>,
             \<lparr>item_id = ''c'', status = Some STATUS_UPCOMING, region = Some ''busan'',
              max_profit = None, schedule = None, models = None\<rparr>]
   in filter_status af = ''upcoming'' \<and> filter_region af = ''all'' \<and>
      applyFilters af xs = [xs ! 0, xs ! 2]"
  using applyFilters_meaning
    [of "\<lparr>filter_status = ''upcoming'', filter_region = ''all''\<rparr>"
        "[\<lparr>item_id = ''a'', status = Some STATUS_OPEN, region = Some ''seoul'',
              max_profit = None, schedule = None, models = None\<rparr>,
             \<lparr>item_id = ''b'', status = Some ''closed'', region = Some ''seoul'',
              max_profit = None, schedule = None, models = None\<rparr>,
             \<lparr>item_id = ''c'', status = Some STATUS_UPCOMING, region = Some ''busan'',
              max_profit = None, schedule = None, models = None\<rparr>]", THEN conjunct1]
  by (simp add: Let_def STATUS_OPEN_def STATUS_UPCOMING_def)

section \<open>The date key\<close>

lemma or0_getTime: "or0 x = (case x of None \<Rightarrow> 0 | Some t \<Rightarrow> t)"
  by (cases x) (simp_all add: or0_def)

lemma dateVal_present:
  "dateVal g d = (if present d then (case g (the d) of None \<Rightarrow> 0 | Some t \<Rightarrow> t) else 0)"
  by (cases d) (simp_all add: dateVal_def present_def or0_getTime)

lemma bestDate_Some:
  "schedule item = Some s \<Longrightarrow>
   bestDate g item =
     (if dateVal g (receipt_start s) \<noteq> 0 then dateVal g (receipt_start s)
      else dateVal g (announcement_date s))"
  by (simp add: bestDate_def)

lemma bestDate_None: "schedule item = None \<Longrightarrow> bestDate g item = 0"
  by (simp add: bestDate_def dateVal_def)

lemma bestDate_reference:
  assumes "schedule item = Some s"
    and "\<not> present (receipt_start s) \<or> dateVal g (receipt_start s) \<noteq> 0"
  shows "bestDate g item = reference_key g item"
  using assms
  by (auto simp: bestDate_Some reference_key_def reference_date_def dateVal_present
      present_def split: option.splits)

text \<open>
  C7, as stated: the date key is that of the first present of the receipt-start and the
  announcement date. It is not when the receipt-start date is present but yields the
  timestamp 0: a receipt-start date at the epoch itself, or one that does not parse, is
  passed over by \<^verbatim>\<open>||\<close> and the announcement date gives the key.
\<close>

theorem bestDate_counterexample:
  "bestDate iso_dates
     \<lparr>item_id = ''a'', status = None, region = None, max_profit = None,
      schedule = Some \<lparr>receipt_start = Some ''1970-01-01'',
                        announcement_date = Some ''2024-05-01''\<rparr>,
      models = None\<rparr> = 1714521600000 \<and>
   reference_key iso_dates
     \<lparr>item_id = ''a'', status = None, region = None, max_profit = None,
      schedule = Some \<lparr>receipt_start = Some ''1970-01-01'',
                        announcement_date = Some ''2024-05-01''\<rparr>,
      models = None\<rparr> = 0 \<and>
   bestDate iso_dates
     \<lparr>item_id = ''b'', status = None, region = None, max_profit = None,
      schedule = Some \<lparr>receipt_start = Some ''TBD'',
                        announcement_date = Some ''2024-05-01''\<rparr>,
      models = None\<rparr> = 1714521600000 \<and>
   reference_key iso_dates
     \<lparr>item_id = ''b'', status = None, region = None, max_profit = None,
      schedule = Some \<lparr>receipt_start = Some ''TBD'',
                        announcement_date = Some ''2024-05-01''\<rparr>,
      models = None\<rparr> = 0"
  by (simp add: bestDate_def dateVal_def or0_def reference_key_def reference_date_def
      present_def iso_dates_def)

text \<open>
  C7, amended: the date key of a listing is the timestamp of its receipt-start date when
  that timestamp is nonzero, and otherwise the timestamp of its announcement date, where
  the timestamp of a date that is absent, empty or unparseable is 0. It agrees with the
  key of the reference date whenever the receipt-start date is absent or has a nonzero
  timestamp. A listing without schedule, or whose dates are each absent or unparseable,
  has key 0. The key \<^verbatim>\<open>date-asc\<close> orders by this key ascending, \<^verbatim>\<open>date-desc\<close> descending.
\<close>

theorem bestDate_key:
  "(\<forall>s. schedule item = Some s \<longrightarrow>
      bestDate g item =
        (if dateVal g (receipt_start s) \<noteq> 0 then dateVal g (receipt_start s)
         else dateVal g (announcement_date s))) \<and>
   (schedule item = None \<longrightarrow> bestDate g item = 0) \<and>
   dateVal g d = (if present d then (case g (the d) of None \<Rightarrow> 0 | Some t \<Rightarrow> t) else 0) \<and>
   (\<forall>s. schedule item = Some s \<and>
        (\<not> present (receipt_start s) \<or> dateVal g (receipt_start s) \<noteq> 0) \<longrightarrow>
      bestDate g item = reference_key g item) \<and>
   (\<forall>s. schedule item = Some s \<and>
        (\<not> present (receipt_start s) \<or> g (the (receipt_start s)) = None) \<and>
        (\<not> present (announcement_date s) \<or> g (the (announcement_date s)) = None) \<longrightarrow>
      bestDate g item = 0) \<and>
   sorted (map (bestDate g) (applySort g ''date-asc'' xs)) \<and>
   sorted (rev (map (bestDate g) (applySort g ''date-desc'' xs)))"
proof (intro conjI allI impI)
  fix s assume "schedule item = Some s"
  then show "bestDate g item =
        (if dateVal g (receipt_start s) \<noteq> 0 then dateVal g (receipt_start s)
         else dateVal g (announcement_date s))"
    by (rule bestDate_Some)
next
  assume "schedule item = None"
  then show "bestDate g item = 0" by (rule bestDate_None)
next
  show "dateVal g d = (if present d then (case g (the d) of None \<Rightarrow> 0 | Some t \<Rightarrow> t) else 0)"
    by (rule dateVal_present)
next
  fix s assume "schedule item = Some s \<and>
        (\<not> present (receipt_start s) \<or> dateVal g (receipt_start s) \<noteq> 0)"
  then show "bestDate g item = reference_key g item"
    using bestDate_reference by blast
next
  fix s assume a: "schedule item = Some s \<and>
        (\<not> present (receipt_start s) \<or> g (the (receipt_start s)) = None) \<and>
        (\<not> present (announcement_date s) \<or> g (the (announcement_date s)) = None)"
  then have "dateVal g (receipt_start s) = 0" "dateVal g (announcement_date s) = 0"
    by (auto simp: dateVal_present)
  then show "bestDate g item = 0"
    using a by (simp add: bestDate_Some)
next
  show "sorted (map (bestDate g) (applySort g ''date-asc'' xs))"
    by (simp add: applySort_date_asc)
next
  have "sorted (map (\<lambda>i. - bestDate g i) (sort_key (\<lambda>i. - bestDate g i) xs))"
    by (rule sorted_sort_key)
  then have "sorted_wrt (\<lambda>a b. bestDate g a \<ge> bestDate g b) (applySort g ''date-desc'' xs)"
    by (simp add: applySort_date_desc sorted_map)
  then show "sorted (rev (map (bestDate g) (applySort g ''date-desc'' xs)))"
    by (simp add: sorted_wrt_rev sorted_wrt_map)
qed

text \<open>A listing with an announcement date only: its key is that date's timestamp.\<close>

theorem bestDate_key_witness:
  "let item = \<lparr>item_id = ''a'', status = None, region = None, max_profit = None,
      schedule = Some \<lparr>receipt_start = None, announcement_date = Some ''2024-05-01''\<rparr>,
      models = None\<rparr>
   in bestDate iso_dates item = 1714521600000 \<and> reference_key iso_dates item = 1714521600000"
  using bestDate_key
    [of "\<lparr>item_id = ''a'', status = None, region = None, max_profit = None,
      schedule = Some \<lparr>receipt_start = None, announcement_date = Some ''2024-05-01''\<rparr>,
      models = None\<rparr>" iso_dates]
  by (simp add: Let_def dateVal_def present_def or0_def iso_dates_def
      reference_key_def reference_date_def)

section \<open>The pipeline on the store\<close>

lemma applyFilters_ref_eq:
  "applyFilters_ref af a h = (length h, h @ [applyFilters af (h ! a)])"
  by (simp add: applyFilters_ref_def Array_filter_def applyFilters_def)

lemma applySort_ref_eq:
  "applySort_ref g key a h = (length h, h @ [applySort g key (h ! a)])"
  by (simp add: applySort_ref_def Array_spread_def Array_sort_inplace_def applySort_def
      split: option.splits)

lemma pipeline_ref_eq:
  "pipeline_ref g af key a h =
     (Suc (length h),
      h @ [applyFilters af (h ! a), applySort g key (applyFilters af (h ! a))])"
  by (simp add: pipeline_ref_def applyFilters_ref_eq applySort_ref_eq)

text \<open>
  C8: the filter and sort calls of \<^verbatim>\<open>renderCards\<close> leave every array that existed before
  the call as it was, the input among them: the store after the call begins with the store
  before it. The result is a newly allocated array holding the sorted filtered contents of
  the input, \<open>applySort (applyFilters input)\<close>. Likewise for each function alone:
  \<^verbatim>\<open>applyFilters\<close> builds a new array, and \<^verbatim>\<open>applySort\<close> orders a copy.
\<close>

theorem pipeline_ref_frame:
  "(case pipeline_ref g af key a h of
      (r, h') \<Rightarrow>
        take (length h) h' = h \<and> length h \<le> r \<and> r < length h' \<and>
        h' ! r = applySort g key (applyFilters af (h ! a)) \<and>
        (a < length h \<longrightarrow> h' ! a = h ! a)) \<and>
   (case applyFilters_ref af a h of
      (r, h') \<Rightarrow>
        take (length h) h' = h \<and> r = length h \<and> h' ! r = applyFilters af (h ! a)) \<and>
   (case applySort_ref g key a h of
      (r, h') \<Rightarrow>
        take (length h) h' = h \<and> r = length h \<and> h' ! r = applySort g key (h ! a))"
proof -
  let ?filtered = "applyFilters af (h ! a)"
  have whole: "pipeline_ref g af key a h =
      (Suc (length h), h @ [?filtered, applySort g key ?filtered])"
    by (rule pipeline_ref_eq)
  have old: "(h @ ys) ! a = h ! a" if "a < length h" for ys :: store
    using that by (simp add: nth_append)
  have result: "(h @ [?filtered, applySort g key ?filtered]) ! Suc (length h) =
      applySort g key ?filtered"
    by (simp add: nth_append)
  show ?thesis
    unfolding whole applyFilters_ref_eq applySort_ref_eq
    using old result by simp
qed

text \<open>
  A store with one array of two open listings: the pipeline appends the filtered array
  and its sorted copy, and the input array is as before.
\<close>

theorem pipeline_ref_frame_witness:
  "let x = \<lparr>item_id = ''a'', status = Some STATUS_OPEN, region = None,
             max_profit = Some 1, schedule = None, models = None\<rparr>;
       y = \<lparr>item_id = ''b'', status = Some STATUS_OPEN, region = None,
             max_profit = Some 2, schedule = None, models = None\<rparr>;
       af = \<lparr>filter_status = ''upcoming'', filter_region = ''all''\<rparr>
   in pipeline_ref (\<lambda>s. None) af ''profit-desc'' 0 [[x, y]] = (2, [[x, y], [x, y], [y, x]])"
  using pipeline_ref_frame
    [where g = "\<lambda>s. None"
       and af = "\<lparr>filter_status = ''upcoming'', filter_region = ''all''\<rparr>"
       and key = "''profit-desc''" and a = 0
       and h = "[[\<lparr>item_id = ''a'', status = Some STATUS_OPEN, region = None,
             max_profit = Some 1, schedule = None, models = None\<rparr>,
           \<lparr>item_id = ''b'', status = Some STATUS_OPEN, region = None,
             max_profit = Some 2, schedule = None, models = None\<rparr>]]"]
  by (simp add: Let_def pipeline_ref_eq applyFilters_def keep_def applySort_def comparator_def
      Array_sort_def or0_def STATUS_OPEN_def STATUS_UPCOMING_def)

section \<open>Hash routing\<close>

text \<open>
  C3, as stated: for an id that resolves to no listing the rendering boundary receives an
  explicit not-found signal. It receives nothing: \<^verbatim>\<open>openDetail\<close> returns at its guard and
  the handler performs no write at all.
\<close>

theorem handleHashChange_unknown_counterexample:
  "find (\<lambda>it. item_id it = ''doesnotexist'')
     [\<lparr>item_id = ''2024000123'', status = None, region = None, max_profit = None,
       schedule = None, models = None\<rparr>] = None \<and>
   snd (handleHashChange
     \<lparr>allItems = [\<lparr>item_id = ''2024000123'', status = None, region = None,
                   max_profit = None, schedule = None, models = None\<rparr>],
      activeFilters = \<lparr>filter_status = ''upcoming'', filter_region = ''all''\<rparr>,
      activeSort = ''date-asc'',
      location_hash = ''#detail/doesnotexist''\<rparr>) = []"
  by (simp add: handleHashChange_def openDetail_def startsWith_def)

text \<open>
  C3, amended: when the fragment is \<^verbatim>\<open>#detail/{id}\<close> and the id resolves to no loaded
  listing, the handler does not fault, changes none of the program's state and writes
  nothing to the page, so the view stays as it was; the requested id stays recorded in the
  fragment, which reads as the state \<open>Detail id\<close>; no signal of any kind is sent. When the
  id resolves, the listing's detail is written, the overlay shown and scrolling locked.
\<close>

theorem handleHashChange_unknown:
  "(location_hash st = ''#detail/'' @ i \<and>
    find (\<lambda>it. item_id it = i) (allItems st) = None \<longrightarrow>
      handleHashChange st = (st, []) \<and>
      nav_state (location_hash (fst (handleHashChange st))) = Detail i) \<and>
   (location_hash st = ''#detail/'' @ i \<and>
    find (\<lambda>it. item_id it = i) (allItems st) = Some item \<longrightarrow>
      handleHashChange st =
        (st, [PanelHTML item, OverlayActive True, BodyOverflow ''hidden'']))"
proof -
  have run: "handleHashChange st = (st, openDetail (allItems st) i)"
    and nav: "nav_state (location_hash st) = Detail i"
    if h: "location_hash st = ''#detail/'' @ i"
  proof -
    have sw: "startsWith (location_hash st) ''#detail/''"
      unfolding h by (simp add: startsWith_def)
    have rp: "replace ''#detail/'' [] (location_hash st) = i"
      unfolding h by (simp add: startsWith_def)
    show "handleHashChange st = (st, openDetail (allItems st) i)"
      by (simp only: handleHashChange_def Let_def sw rp if_True)
    show "nav_state (location_hash st) = Detail i"
      unfolding nav_state_def using sw by (simp add: h)
  qed
  show ?thesis
  proof (intro conjI impI)
    assume a: "location_hash st = ''#detail/'' @ i \<and>
      find (\<lambda>it. item_id it = i) (allItems st) = None"
    then show r: "handleHashChange st = (st, [])"
      using run by (simp only: openDetail_def option.case)
    show "nav_state (location_hash (fst (handleHashChange st))) = Detail i"
      unfolding r fst_conv using a nav by blast
  next
    assume a: "location_hash st = ''#detail/'' @ i \<and>
      find (\<lambda>it. item_id it = i) (allItems st) = Some item"
    then show "handleHashChange st =
        (st, [PanelHTML item, OverlayActive True, BodyOverflow ''hidden''])"
      using run by (simp only: openDetail_def option.case)
  qed
qed

text \<open>The fragment \<^verbatim>\<open>#detail/42\<close> with nothing loaded.\<close>

theorem handleHashChange_unknown_witness:
  "let st = \<lparr>allItems = [], activeFilters = \<lparr>filter_status = ''all'', filter_region = ''all''\<rparr>,
             activeSort = ''profit-desc'', location_hash = ''#detail/42''\<rparr>
   in handleHashChange st = (st, []) \<and>
      nav_state (location_hash (fst (handleHashChange st))) = Detail ''42''"
  using handleHashChange_unknown
    [where st = "\<lparr>allItems = [],
                   activeFilters = \<lparr>filter_status = ''all'', filter_region = ''all''\<rparr>,
                   activeSort = ''profit-desc'', location_hash = ''#detail/42''\<rparr>"
       and i = "''42''", THEN conjunct1]
  by (simp add: Let_def nav_state_def startsWith_def)

section \<open>Loading the snapshot\<close>

lemma loadData_failing:
  assumes "outcome = FetchFails \<or> outcome = Response False code body \<or>
    outcome = Response True code JsonFails \<or> outcome = Response True code JsonNull"
  shows "\<exists>e. loadData loc lim g outcome st = (st, [ConsoleError e, CardListHTML LoadFailedHTML])"
  using assms by (auto simp: loadData_def loadData_try_def)

lemma updateSummary_writes:
  "CardListHTML c \<notin> set (fst (updateSummary loc lim data))"
  by (auto simp: updateSummary_def Let_def)

lemma updateSummary_thrown:
  "snd (updateSummary loc lim data) =
     (if lim < length (case items data of None \<Rightarrow> [] | Some xs \<Rightarrow> xs) then Some RangeError
      else None)"
  by (auto simp: updateSummary_def Let_def)

lemma renderCards_writes:
  "CardListHTML LoadFailedHTML \<notin> set (renderCards g st)"
  by (simp add: renderCards_def Let_def)

lemma loadData_parsed:
  "loadData loc lim g (Response True code (JsonObject data)) st =
     (st\<lparr>allItems := (case items data of None \<Rightarrow> [] | Some xs \<Rightarrow> xs)\<rparr>,
      [TextContent ''updatedAt''
         (UPDATED_PREFIX @
            (case updated_at data of None \<Rightarrow> ''-'' | Some s \<Rightarrow> if s = '''' then ''-'' else s))] @
      fst (updateSummary loc lim data) @
      (if lim < length (case items data of None \<Rightarrow> [] | Some xs \<Rightarrow> xs)
       then [ConsoleError RangeError, CardListHTML LoadFailedHTML]
       else renderCards g
              (st\<lparr>allItems := (case items data of None \<Rightarrow> [] | Some xs \<Rightarrow> xs)\<rparr>)))"
proof -
  obtain summary thrown where u: "updateSummary loc lim data = (summary, thrown)"
    by (cases "updateSummary loc lim data")
  have t: "thrown =
     (if lim < length (case items data of None \<Rightarrow> [] | Some xs \<Rightarrow> xs) then Some RangeError
      else None)"
    using updateSummary_thrown [of loc lim data] u by simp
  show ?thesis
    by (simp add: loadData_def loadData_try_def Let_def u t)
qed

text \<open>
  C9: when \<^verbatim>\<open>fetch\<close> rejects, the response is not a success, or the body does not parse
  (or is \<^verbatim>\<open>null\<close>), the error is caught: the program's state is unchanged, the error is
  logged and the load-failure block is written to the card list exactly once, and nothing
  else is written; after the one load of a page no item is loaded and the filter and sort
  pipeline yields the empty sequence. Whatever the outcome, there is no partial population:
  the loaded items are those from before the call or the whole list of the snapshot, and
  the load-failure block is written at most once. A snapshot that parses has all its items
  loaded; the load-failure block is then not written, unless the list is longer than the
  runtime's argument limit, in which case the summary throws and the block is written, once
  and last, with the items loaded.
\<close>

theorem loadData_failure:
  "(outcome = FetchFails \<or> outcome = Response False code body \<or>
    outcome = Response True code JsonFails \<or> outcome = Response True code JsonNull \<longrightarrow>
      (\<exists>e. loadData loc lim g outcome st = (st, [ConsoleError e, CardListHTML LoadFailedHTML])) \<and>
      count_list (snd (loadData loc lim g outcome st)) (CardListHTML LoadFailedHTML) = 1 \<and>
      allItems (fst (loadData loc lim g outcome (initial h))) = [] \<and>
      applySort g (activeSort (fst (loadData loc lim g outcome (initial h))))
        (applyFilters (activeFilters (fst (loadData loc lim g outcome (initial h))))
           (allItems (fst (loadData loc lim g outcome (initial h))))) = []) \<and>
   (allItems (fst (loadData loc lim g outcome st)) = allItems st \<or>
    (\<exists>c d. outcome = Response True c (JsonObject d) \<and>
       allItems (fst (loadData loc lim g outcome st)) =
         (case items d of None \<Rightarrow> [] | Some xs \<Rightarrow> xs))) \<and>
   count_list (snd (loadData loc lim g outcome st)) (CardListHTML LoadFailedHTML) \<le> 1 \<and>
   (outcome = Response True code (JsonObject data) \<longrightarrow>
      allItems (fst (loadData loc lim g outcome st)) =
        (case items data of None \<Rightarrow> [] | Some xs \<Rightarrow> xs) \<and>
      (length (case items data of None \<Rightarrow> [] | Some xs \<Rightarrow> xs) \<le> lim \<longrightarrow>
         CardListHTML LoadFailedHTML \<notin> set (snd (loadData loc lim g outcome st))) \<and>
      (lim < length (case items data of None \<Rightarrow> [] | Some xs \<Rightarrow> xs) \<longrightarrow>
         (\<exists>ws. snd (loadData loc lim g outcome st) =
                 ws @ [ConsoleError RangeError, CardListHTML LoadFailedHTML] \<and>
               CardListHTML LoadFailedHTML \<notin> set ws)))"
proof (intro conjI impI)
  assume f: "outcome = FetchFails \<or> outcome = Response False code body \<or>
    outcome = Response True code JsonFails \<or> outcome = Response True code JsonNull"
  from loadData_failing [OF f] obtain e
    where e: "loadData loc lim g outcome st = (st, [ConsoleError e, CardListHTML LoadFailedHTML])"
    by blast
  then show "\<exists>e. loadData loc lim g outcome st =
      (st, [ConsoleError e, CardListHTML LoadFailedHTML])"
    by blast
  show "count_list (snd (loadData loc lim g outcome st)) (CardListHTML LoadFailedHTML) = 1"
    using e by simp
  from loadData_failing [OF f]
  have i: "fst (loadData loc lim g outcome (initial h)) = initial h"
    by (metis fst_conv)
  show "allItems (fst (loadData loc lim g outcome (initial h))) = []"
    unfolding i by (simp add: initial_def)
  show "applySort g (activeSort (fst (loadData loc lim g outcome (initial h))))
        (applyFilters (activeFilters (fst (loadData loc lim g outcome (initial h))))
           (allItems (fst (loadData loc lim g outcome (initial h))))) = []"
    unfolding i
    by (simp add: initial_def applyFilters_def applySort_def Array_sort_def split: option.splits)
next
  show "allItems (fst (loadData loc lim g outcome st)) = allItems st \<or>
    (\<exists>c d. outcome = Response True c (JsonObject d) \<and>
       allItems (fst (loadData loc lim g outcome st)) =
         (case items d of None \<Rightarrow> [] | Some xs \<Rightarrow> xs))"
  proof (cases "\<exists>c d. outcome = Response True c (JsonObject d)")
    case True
    then show ?thesis by (auto simp: loadData_parsed)
  next
    case False
    then have "outcome = FetchFails \<or> (\<exists>c b. outcome = Response False c b) \<or>
      (\<exists>c. outcome = Response True c JsonFails) \<or> (\<exists>c. outcome = Response True c JsonNull)"
      by (cases outcome; simp) (metis json_result.exhaust)
    then have "fst (loadData loc lim g outcome st) = st"
      by (auto simp: loadData_def loadData_try_def)
    then show ?thesis by simp
  qed
next
  show "count_list (snd (loadData loc lim g outcome st)) (CardListHTML LoadFailedHTML) \<le> 1"
  proof (cases "\<exists>c d. outcome = Response True c (JsonObject d)")
    case True
    then show ?thesis
      using updateSummary_writes [of LoadFailedHTML loc lim]
      by (auto simp: loadData_parsed renderCards_def Let_def)
  next
    case False
    then have "outcome = FetchFails \<or> (\<exists>c b. outcome = Response False c b) \<or>
      (\<exists>c. outcome = Response True c JsonFails) \<or> (\<exists>c. outcome = Response True c JsonNull)"
      by (cases outcome; simp) (metis json_result.exhaust)
    then show ?thesis
      by (auto simp: loadData_def loadData_try_def)
  qed
next
  assume s: "outcome = Response True code (JsonObject data)"
  show "allItems (fst (loadData loc lim g outcome st)) =
      (case items data of None \<Rightarrow> [] | Some xs \<Rightarrow> xs)"
    unfolding s by (simp add: loadData_parsed)
  {
    assume "length (case items data of None \<Rightarrow> [] | Some xs \<Rightarrow> xs) \<le> lim"
    then show "CardListHTML LoadFailedHTML \<notin> set (snd (loadData loc lim g outcome st))"
      unfolding s
      using updateSummary_writes [of LoadFailedHTML loc lim data] renderCards_writes
      by (simp add: loadData_parsed)
  }
  {
    assume "lim < length (case items data of None \<Rightarrow> [] | Some xs \<Rightarrow> xs)"
    then show "\<exists>ws. snd (loadData loc lim g outcome st) =
                 ws @ [ConsoleError RangeError, CardListHTML LoadFailedHTML] \<and>
               CardListHTML LoadFailedHTML \<notin> set ws"
      unfolding s
      using updateSummary_writes [of LoadFailedHTML loc lim data]
      by (simp add: loadData_parsed)
  }
qed

text \<open>
  A response with status 404; and a snapshot of two listings in a runtime that accepts one
  argument.
\<close>

theorem loadData_failure_witness:
  "loadData ko_KR 65535 (\<lambda>s. None) (Response False 404 JsonFails) (initial ''x'') =
     (initial ''x'', [ConsoleError (HttpError 404), CardListHTML LoadFailedHTML]) \<and>
   allItems (fst (loadData ko_KR 65535 (\<lambda>s. None) (Response False 404 JsonFails)
     (initial ''x''))) = [] \<and>
   length (allItems (fst (loadData ko_KR 1 (\<lambda>s. None)
     (Response True 200 (JsonObject
        \<lparr>items = Some
           [\<lparr>item_id = ''a'', status = None, region = None, max_profit = None,
             schedule = None, models = None\<rparr>,
            \<lparr>item_id = ''b'', status = None, region = None, max_profit = None,
             schedule = None, models = None\<rparr>],
         updated_at = None\<rparr>))
     (initial ''x'')))) = 2"
  using loadData_failure
    [where outcome = "Response False 404 JsonFails" and code = 404 and body = JsonFails
       and loc = ko_KR and lim = 65535 and g = "\<lambda>s. None" and st = "initial ''x''"
       and h = "''x''", THEN conjunct1]
    loadData_failure
    [where outcome = "Response True 200 (JsonObject
        \<lparr>items = Some
           [\<lparr>item_id = ''a'', status = None, region = None, max_profit = None,
             schedule = None, models = None\<rparr>,
            \<lparr>item_id = ''b'', status = None, region = None, max_profit = None,
             schedule = None, models = None\<rparr>],
         updated_at = None\<rparr>)"
       and code = 200
       and data = "\<lparr>items = Some
           [\<lparr>item_id = ''a'', status = None, region = None, max_profit = None,
             schedule = None, models = None\<rparr>,
            \<lparr>item_id = ''b'', status = None, region = None, max_profit = None,
             schedule = None, models = None\<rparr>],
         updated_at = None\<rparr>"
       and loc = ko_KR and lim = 1 and g = "\<lambda>s. None" and st = "initial ''x''",
     THEN conjunct2, THEN conjunct2, THEN conjunct2]
  by (auto simp: loadData_def loadData_try_def)

end
